theory Spec2Isabelle
  imports Main "HOL-Library.Word"
begin

section \<open>Serial setup state (libsel4platsupport/src/common.c)\<close>

text \<open>
  The serial bring-up code keeps one global \<open>ctx\<close>. Every function that reads or writes it
  is modelled as a function from the context before the call to the return value and the
  context after it. A call that ends in \<open>abort()\<close> or in a failed \<open>assert\<close> has no
  return value: it is \<open>None\<close>.
\<close>

datatype serial_setup_status =
  NOT_INITIALIZED | START_REGULAR_SETUP | START_FAILSAFE_SETUP | SETUP_COMPLETE

text \<open>
  The structures \<open>ps_io_ops_t\<close>, \<open>simple_t\<close> and \<open>vka_t\<close> are declared in other
  libraries. Of \<open>ps_io_ops_t\<close> the code touches the two fields below; the contents of a
  \<open>simple_t\<close> and of a \<open>vka_t\<close> are opaque here and stand as numbers (\<open>memset\<close> to zero is
  the number 0). Pointers say what they point to: a field of \<open>ctx\<close> itself or an object of
  the caller.
\<close>

datatype map_fn_ptr = Map_fn_NULL | Map_device_page | Map_fn_caller nat

record ps_io_ops_t =
  io_map_fn :: map_fn_ptr
  io_port_ops :: nat

datatype vka_ptr = Vka_NULL | Vka_ctx_mem | Vka_caller nat

datatype simple_ptr = Simple_ctx_mem | Simple_caller nat

datatype io_ops_ptr = Io_ops_ctx | Io_ops_caller ps_io_ops_t

record ctx_t =
  setup_status :: serial_setup_status
  io_ops :: ps_io_ops_t
  device_cap :: nat
  vka :: vka_ptr
  vspace :: "nat option"
  simple_mem :: nat
  vka_mem :: nat

text \<open>
  The preprocessor switches the three setup functions depend on. With
  \<open>USE_DEBUG_HARDWARE\<close> false the context consists of \<open>setup_status\<close> alone and the
  other fields of \<open>ctx_t\<close> are never touched. \<open>NDEBUG\<close> decides whether a failed
  \<open>assert\<close> aborts.
\<close>

record build_config =
  USE_DEBUG_HARDWARE :: bool
  CONFIG_ARCH_X86 :: bool
  NDEBUG :: bool

text \<open>
  The functions of other libraries that the setup code calls. \<open>__plat_serial_init\<close> may
  call back \<open>io_map_fn\<close>, that is \<open>__map_device_page\<close>, which writes \<open>ctx.device_cap\<close>
  or aborts, so it maps a context to a return value and a context, or to no return.
  \<open>simple_default_init_bootinfo\<close> (applied to \<open>platsupport_get_bootinfo()\<close>) and
  \<open>simple_make_vka\<close> fill the structure they are handed. \<open>ZF_LOGE\<close> prints, and
  printing on a context that is not yet \<open>SETUP_COMPLETE\<close> runs the serial fallback, which
  writes the context or aborts.
\<close>

record platform =
  plat_serial_init :: "io_ops_ptr \<Rightarrow> ctx_t \<Rightarrow> (int \<times> ctx_t) option"
  simple_default_init_bootinfo :: "nat \<Rightarrow> nat"
  simple_make_vka :: "nat \<Rightarrow> nat \<Rightarrow> nat"
  sel4platsupport_get_io_port_ops :: "simple_ptr \<Rightarrow> vka_ptr \<Rightarrow> ctx_t \<Rightarrow> nat"
  zf_loge :: "ctx_t \<Rightarrow> ctx_t option"

text \<open>The initial value of the global: \<open>static ctx_t ctx = { .setup_status = NOT_INITIALIZED }\<close>.\<close>

definition ctx_init :: ctx_t where
  "ctx_init = \<lparr>setup_status = NOT_INITIALIZED,
     io_ops = \<lparr>io_map_fn = Map_fn_NULL, io_port_ops = 0\<rparr>,
     device_cap = 0, vka = Vka_NULL, vspace = None, simple_mem = 0, vka_mem = 0\<rparr>"

definition platsupport_serial_setup_io_ops ::
  "platform \<Rightarrow> io_ops_ptr \<Rightarrow> ctx_t \<Rightarrow> (int \<times> ctx_t) option" where
  "platsupport_serial_setup_io_ops plat io_ops_arg ctx =
     (if setup_status ctx = SETUP_COMPLETE then Some (0, ctx)
      else case plat_serial_init plat io_ops_arg ctx of
             None \<Rightarrow> None
           | Some (err, ctx') \<Rightarrow>
               if err = 0 then Some (err, ctx'\<lparr>setup_status := SETUP_COMPLETE\<rparr>)
               else Some (err, ctx'))"

text \<open>\<open>__setup_io_ops\<close>, compiled only with \<open>USE_DEBUG_HARDWARE\<close>.\<close>

definition setup_io_ops ::
  "platform \<Rightarrow> build_config \<Rightarrow> simple_ptr \<Rightarrow> ctx_t \<Rightarrow> (int \<times> ctx_t) option" where
  "setup_io_ops plat cfg simple ctx =
     (let ctx1 = ctx\<lparr>io_ops := (io_ops ctx)\<lparr>io_map_fn := Map_device_page\<rparr>\<rparr>;
          ctx2 = (if CONFIG_ARCH_X86 cfg
                  then ctx1\<lparr>io_ops := (io_ops ctx1)\<lparr>io_port_ops :=
                         sel4platsupport_get_io_port_ops plat simple (vka ctx1) ctx1\<rparr>\<rparr>
                  else ctx1)
      in platsupport_serial_setup_io_ops plat Io_ops_ctx ctx2)"

definition platsupport_serial_setup_bootinfo_failsafe ::
  "platform \<Rightarrow> build_config \<Rightarrow> ctx_t \<Rightarrow> (int \<times> ctx_t) option" where
  "platsupport_serial_setup_bootinfo_failsafe plat cfg ctx =
     (if setup_status ctx = SETUP_COMPLETE then Some (0, ctx)
      else if USE_DEBUG_HARDWARE cfg then
        (let ctx1 = ctx\<lparr>setup_status := START_FAILSAFE_SETUP\<rparr>;
             ctx2 = ctx1\<lparr>simple_mem := 0\<rparr>;
             ctx3 = ctx2\<lparr>vka_mem := 0\<rparr>;
             ctx4 = ctx3\<lparr>simple_mem := simple_default_init_bootinfo plat (simple_mem ctx3)\<rparr>;
             ctx5 = ctx4\<lparr>vka_mem := simple_make_vka plat (simple_mem ctx4) (vka_mem ctx4)\<rparr>;
             ctx6 = ctx5\<lparr>vka := Vka_ctx_mem\<rparr>
         in setup_io_ops plat cfg Simple_ctx_mem ctx6)
      else Some (0, ctx\<lparr>setup_status := SETUP_COMPLETE\<rparr>))"

text \<open>
  On a partially initialised context the function logs, asserts a false condition and
  returns \<open>-1\<close>: with assertions compiled in the call does not return.
\<close>

definition platsupport_serial_setup_simple ::
  "platform \<Rightarrow> build_config \<Rightarrow> nat option \<Rightarrow> simple_ptr \<Rightarrow> vka_ptr \<Rightarrow> ctx_t \<Rightarrow>
     (int \<times> ctx_t) option" where
  "platsupport_serial_setup_simple plat cfg vspace_arg simple vka_arg ctx =
     (let err = 0 in
      if setup_status ctx = SETUP_COMPLETE then Some (0, ctx)
      else if setup_status ctx \<noteq> NOT_INITIALIZED then
        (case zf_loge plat ctx of
           None \<Rightarrow> None
         | Some ctx' \<Rightarrow> if NDEBUG cfg then Some (- 1, ctx') else None)
      else if USE_DEBUG_HARDWARE cfg then
        (let ctx1 = ctx\<lparr>setup_status := START_REGULAR_SETUP\<rparr>;
             ctx2 = ctx1\<lparr>vspace := vspace_arg\<rparr>;
             ctx3 = ctx2\<lparr>vka := vka_arg\<rparr>
         in setup_io_ops plat cfg simple ctx3)
      else Some (err, ctx\<lparr>setup_status := SETUP_COMPLETE\<rparr>))"

text \<open>A program's calls to the three setup functions, run one after the other on \<open>ctx\<close>.\<close>

datatype setup_call =
  Serial_setup_io_ops io_ops_ptr
| Serial_setup_bootinfo_failsafe
| Serial_setup_simple "nat option" simple_ptr vka_ptr

fun setup_call_run ::
  "platform \<Rightarrow> build_config \<Rightarrow> setup_call \<Rightarrow> ctx_t \<Rightarrow> (int \<times> ctx_t) option" where
  "setup_call_run plat cfg (Serial_setup_io_ops p) ctx = platsupport_serial_setup_io_ops plat p ctx"
| "setup_call_run plat cfg Serial_setup_bootinfo_failsafe ctx =
     platsupport_serial_setup_bootinfo_failsafe plat cfg ctx"
| "setup_call_run plat cfg (Serial_setup_simple vs s v) ctx =
     platsupport_serial_setup_simple plat cfg vs s v ctx"

fun setup_calls_run ::
  "platform \<Rightarrow> build_config \<Rightarrow> setup_call list \<Rightarrow> ctx_t \<Rightarrow> (int list \<times> ctx_t) option" where
  "setup_calls_run plat cfg [] ctx = Some ([], ctx)"
| "setup_calls_run plat cfg (c # cs) ctx =
     (case setup_call_run plat cfg c ctx of
        None \<Rightarrow> None
      | Some (r, ctx') \<Rightarrow>
          (case setup_calls_run plat cfg cs ctx' of
             None \<Rightarrow> None
           | Some (rs, ctx'') \<Rightarrow> Some (r # rs, ctx'')))"

text \<open>
  Two platforms and a configuration to run the functions on: on the first the serial
  device initialises, on the second \<open>__plat_serial_init\<close> reports an error; both record a
  device capability in the context.
\<close>

definition working_platform :: platform where
  "working_platform = \<lparr>plat_serial_init = (\<lambda>p c. Some (0, c\<lparr>device_cap := 7\<rparr>)),
     simple_default_init_bootinfo = (\<lambda>s. 11), simple_make_vka = (\<lambda>s v. 12),
     sel4platsupport_get_io_port_ops = (\<lambda>s v c. 13), zf_loge = Some\<rparr>"

definition failing_platform :: platform where
  "failing_platform = \<lparr>plat_serial_init = (\<lambda>p c. Some (- 1, c\<lparr>device_cap := 9\<rparr>)),
     simple_default_init_bootinfo = (\<lambda>s. 11), simple_make_vka = (\<lambda>s v. 12),
     sel4platsupport_get_io_port_ops = (\<lambda>s v c. 13), zf_loge = Some\<rparr>"

definition debug_hardware_config :: build_config where
  "debug_hardware_config = \<lparr>USE_DEBUG_HARDWARE = True, CONFIG_ARCH_X86 = False, NDEBUG = False\<rparr>"


section \<open>Physical memory regions\<close>

text \<open>
  \<open>pmem_region_t\<close> and \<open>pmem_type_t\<close> are declared in \<open>sel4platsupport/pmem.h\<close>, which is
  not among the sources. The types below hold what the code names: the constants
  \<open>PMEM_TYPE_DEVICE\<close> and \<open>PMEM_TYPE_RAM\<close>, and the three fields it assigns. The width
  of the two numeric fields is left open (\<open>'w\<close>): a C constant stored in such a field is
  reduced modulo \<open>2 ^ 'w\<close>, as a word numeral is.
\<close>

datatype pmem_type = PMEM_TYPE_RAM | PMEM_TYPE_DEVICE

record (overloaded) 'w pmem_region =
  region_type :: pmem_type
  base_addr :: "'w word"
  region_length :: "'w word"

text \<open>
  What \<open>sel4platsupport_get_pmem_region_list\<close> writes to: the caller's array, cell
  \<open>j\<close> of \<open>region_list\<close> standing for \<open>region_list[j]\<close>, and the output of \<open>printf\<close>,
  one printed index per line (\<open>printf\<close> is taken to return). The caller provides
  \<open>max_length\<close> cells. \<open>size_t\<close> is an \<open>'a word\<close>.
\<close>

record (overloaded) ('a, 'w) pmem_state =
  region_list :: "nat \<Rightarrow> 'w pmem_region"
  stdout_log :: "'a word list"

text \<open>The body of the \<open>for\<close> loop at index \<open>i\<close>.\<close>

definition pmem_loop_body ::
  "'a::len word \<Rightarrow> ('a, 'w::len) pmem_state \<Rightarrow> ('a, 'w) pmem_state" where
  "pmem_loop_body i s =
     (let s0 = s\<lparr>stdout_log := stdout_log s @ [i]\<rparr>;
          s1 = (if i = 0
                then s0\<lparr>region_list := (region_list s0)(unat i :=
                        (region_list s0 (unat i))\<lparr>region_type := PMEM_TYPE_DEVICE,
                          base_addr := 0x40000000, region_length := 1024 * 1024\<rparr>)\<rparr>
                else s0);
          s2 = (if i = 1
                then s1\<lparr>region_list := (region_list s1)(unat i :=
                        (region_list s1 (unat i))\<lparr>region_type := PMEM_TYPE_DEVICE,
                          base_addr := 0x40400000, region_length := 4 * 1024 * 1024\<rparr>)\<rparr>
                else s1)
      in s2)"

text \<open>\<open>for (i = 0; i < k; i++)\<close>, entered at \<open>i\<close>; it returns the final \<open>i\<close>.\<close>

function pmem_loop ::
  "'a::len word \<Rightarrow> 'a word \<Rightarrow> ('a, 'w::len) pmem_state \<Rightarrow> 'a word \<times> ('a, 'w) pmem_state" where
  "pmem_loop i k s = (if i < k then pmem_loop (i + 1) k (pmem_loop_body i s) else (i, s))"
  by pat_completeness auto
termination
proof (relation "measure (\<lambda>(i, k, s). unat k - unat i)")
  show "wf (measure (\<lambda>(i :: 'a word, k :: 'a word, s :: ('a, 'w::len) pmem_state).
          unat k - unat i))"
    by simp
next
  fix i k :: "'a word" and s :: "('a, 'w::len) pmem_state"
  assume "i < k"
  then have less: "unat i < unat k"
    by (simp add: word_less_nat_alt)
  have "unat k < 2 ^ LENGTH('a)"
    by (rule unsigned_less)
  with less have "Suc (unat i) < 2 ^ LENGTH('a)"
    by linarith
  then have "unat i + unat (1 :: 'a word) < 2 ^ LENGTH('a)"
    by simp
  then have "unat (i + 1) = unat i + unat (1 :: 'a word)"
    by (simp only: unat_add_lem)
  with less
  show "((i + 1, k, pmem_loop_body i s), (i, k, s)) \<in> measure (\<lambda>(i, k, s). unat k - unat i)"
    by simp
qed

declare pmem_loop.simps [simp del]

text \<open>The return type \<open>int\<close> is a 32-bit word, read as a signed number by \<open>sint\<close>.\<close>

definition sel4platsupport_get_num_pmem_regions :: "'s \<Rightarrow> 32 word" where
  "sel4platsupport_get_num_pmem_regions simple = 2"

definition sel4platsupport_get_pmem_region_list ::
  "'s \<Rightarrow> 'a::len word \<Rightarrow> ('a, 'w::len) pmem_state \<Rightarrow> 32 word \<times> ('a, 'w) pmem_state" where
  "sel4platsupport_get_pmem_region_list simple max_length s =
     (let k = max_length;
          k = (if k > 2 then 2 else k);
          (i, s') = pmem_loop 0 k s
      in (ucast i, s'))"


section \<open>IRQ server: waiting for the next IRQ\<close>

text \<open>
  The message info of an IPC: its label, and the rest of it, which the wait hands on
  unread. A receive on an endpoint hands over the message info, the sender's badge and the
  message registers. \<open>seL4_Word\<close> is an \<open>'a word\<close>.
\<close>

record (overloaded) 'a seL4_MessageInfo_t =
  mi_label :: "'a word"
  mi_rest :: "'a word"

record (overloaded) 'a ipc_message =
  ipc_info :: "'a seL4_MessageInfo_t"
  ipc_badge :: "'a word"
  ipc_mrs :: "'a word list"

text \<open>
  Of an \<open>irq_server_t\<close> the wait path reads the two values given to \<open>irq_server_new\<close>
  as \<open>label\<close> and \<open>sync_ep\<close>.
\<close>

record (overloaded) 'a irq_server =
  srv_label :: "'a word"
  srv_delivery_ep :: nat

text \<open>
  What a call of \<open>irq_server_wait_for_irq\<close> leaves behind when it returns: the returned
  \<open>seL4_MessageInfo_t\<close>, the badge written through \<open>badge_ret\<close> (nothing when
  \<open>badge_ret\<close> is \<open>NULL\<close>), the messages still to arrive on the endpoint, and the state of
  everything an IRQ handler can touch.
\<close>

record (overloaded) ('a, 'w) wait_return =
  ret_info :: "'a seL4_MessageInfo_t"
  ret_badge :: "'a word option"
  ret_pending :: "'a ipc_message list"
  ret_world :: 'w

text \<open>
  Modelled from the spec: the body of \<open>irq_server_wait_for_irq\<close> is not among the sources,
  only its declaration and doc comment are (the IRQ server header), and so is the body of
  \<open>irq_server_handle_irq_ipc\<close>, which it calls and which is a parameter here. The
  parameters are those of the declaration: the server and \<open>badge_ret\<close> (\<open>True\<close> for a
  pointer that is not \<open>NULL\<close>); \<open>pending\<close> lists the messages that arrive on the delivery
  endpoint, in order. The call waits for the next message: with none it does not return
  (\<open>None\<close>). It compares the label of the message with the label of the server; on a match
  it calls \<open>irq_server_handle_irq_ipc\<close> before it returns, otherwise it touches nothing. In
  both cases it returns the message info as received and writes the received badge to
  \<open>badge_ret\<close>.
\<close>

definition irq_server_wait_for_irq ::
  "('a::len irq_server \<Rightarrow> 'a ipc_message \<Rightarrow> 'w \<Rightarrow> 'w) \<Rightarrow> 'a irq_server \<Rightarrow> bool \<Rightarrow>
     'a ipc_message list \<Rightarrow> 'w \<Rightarrow> ('a, 'w) wait_return option" where
  "irq_server_wait_for_irq irq_server_handle_irq_ipc irq_server badge_ret pending world =
     (case pending of
        [] \<Rightarrow> None
      | m # rest \<Rightarrow>
          Some \<lparr>ret_info = ipc_info m,
                ret_badge = (if badge_ret then Some (ipc_badge m) else None),
                ret_pending = rest,
                ret_world = (if mi_label (ipc_info m) = srv_label irq_server
                             then irq_server_handle_irq_ipc irq_server m world
                             else world)\<rparr>)"

text \<open>
  A server, a handler and two messages to run the wait on. The handler records the first
  message register of every message it is called for; the second message carries a label
  that is not the server's.
\<close>

definition record_dispatch ::
  "'a::len irq_server \<Rightarrow> 'a ipc_message \<Rightarrow> 'a word list \<Rightarrow> 'a word list" where
  "record_dispatch irq_server m world = world @ take 1 (ipc_mrs m)"

definition example_server :: "32 irq_server" where
  "example_server = \<lparr>srv_label = 0xf00d, srv_delivery_ep = 3\<rparr>"

definition irq_message :: "32 ipc_message" where
  "irq_message =
     \<lparr>ipc_info = \<lparr>mi_label = 0xf00d, mi_rest = 2\<rparr>,
      ipc_badge = 0, ipc_mrs = [5, 1]\<rparr>"

definition foreign_message :: "32 ipc_message" where
  "foreign_message =
     \<lparr>ipc_info = \<lparr>mi_label = 0x11, mi_rest = 1\<rparr>,
      ipc_badge = 0x2a, ipc_mrs = [9]\<rparr>"


section \<open>Repeated serial setup\<close>

lemma setup_call_run_complete:
  assumes "setup_status ctx = SETUP_COMPLETE"
  shows "setup_call_run plat cfg c ctx = Some (0, ctx)"
  using assms
  by (cases c)
    (simp_all add: platsupport_serial_setup_io_ops_def
      platsupport_serial_setup_bootinfo_failsafe_def platsupport_serial_setup_simple_def)

text \<open>
  Claim C10. Once the setup state is \<open>SETUP_COMPLETE\<close>, each of
  \<open>platsupport_serial_setup_io_ops\<close>, \<open>platsupport_serial_setup_bootinfo_failsafe\<close> and
  \<open>platsupport_serial_setup_simple\<close> returns 0 and leaves the whole context as it was,
  whatever the platform, the configuration and the arguments; so does every sequence of
  such calls, each returning 0.
\<close>

theorem serial_setup_complete_idempotent:
  assumes "setup_status ctx = SETUP_COMPLETE"
  shows "platsupport_serial_setup_io_ops plat p ctx = Some (0, ctx) \<and>
         platsupport_serial_setup_bootinfo_failsafe plat cfg ctx = Some (0, ctx) \<and>
         platsupport_serial_setup_simple plat cfg vs s v ctx = Some (0, ctx) \<and>
         setup_calls_run plat cfg cs ctx = Some (replicate (length cs) 0, ctx)"
proof -
  have "setup_calls_run plat cfg cs ctx = Some (replicate (length cs) 0, ctx)"
    by (induction cs) (simp_all add: setup_call_run_complete [OF assms])
  moreover have "platsupport_serial_setup_io_ops plat p ctx = Some (0, ctx)"
    using setup_call_run_complete [OF assms, of plat cfg "Serial_setup_io_ops p"] by simp
  moreover have "platsupport_serial_setup_bootinfo_failsafe plat cfg ctx = Some (0, ctx)"
    using setup_call_run_complete [OF assms, of plat cfg Serial_setup_bootinfo_failsafe] by simp
  moreover have "platsupport_serial_setup_simple plat cfg vs s v ctx = Some (0, ctx)"
    using setup_call_run_complete [OF assms, of plat cfg "Serial_setup_simple vs s v"] by simp
  ultimately show ?thesis
    by simp
qed

text \<open>
  The regular setup on a working platform reaches \<open>SETUP_COMPLETE\<close>; from there the three
  functions return 0 and change nothing even on a platform whose serial initialisation
  would fail and overwrite the device capability.
\<close>

theorem serial_setup_complete_idempotent_witness:
  "(case platsupport_serial_setup_simple working_platform debug_hardware_config
           (Some 1) (Simple_caller 2) (Vka_caller 3) ctx_init of
      None \<Rightarrow> False
    | Some (r, ctx) \<Rightarrow>
        r = 0 \<and> setup_status ctx = SETUP_COMPLETE \<and> device_cap ctx = 7 \<and>
        platsupport_serial_setup_io_ops failing_platform Io_ops_ctx ctx = Some (0, ctx) \<and>
        platsupport_serial_setup_bootinfo_failsafe failing_platform debug_hardware_config ctx
          = Some (0, ctx) \<and>
        platsupport_serial_setup_simple failing_platform debug_hardware_config
          None (Simple_caller 5) Vka_NULL ctx = Some (0, ctx) \<and>
        setup_calls_run failing_platform debug_hardware_config
          [Serial_setup_bootinfo_failsafe, Serial_setup_io_ops Io_ops_ctx,
           Serial_setup_simple None (Simple_caller 5) Vka_NULL] ctx = Some ([0, 0, 0], ctx))"
proof -
  define ctx where "ctx = ctx_init\<lparr>setup_status := SETUP_COMPLETE,
    io_ops := \<lparr>io_map_fn = Map_device_page, io_port_ops = 0\<rparr>,
    vspace := Some 1, vka := Vka_caller 3, device_cap := 7\<rparr>"
  have run: "platsupport_serial_setup_simple working_platform debug_hardware_config
           (Some 1) (Simple_caller 2) (Vka_caller 3) ctx_init = Some (0, ctx)"
    by (simp add: platsupport_serial_setup_simple_def setup_io_ops_def
        platsupport_serial_setup_io_ops_def working_platform_def debug_hardware_config_def
        ctx_init_def ctx_def)
  have complete: "setup_status ctx = SETUP_COMPLETE"
    by (simp add: ctx_def)
  have cap: "device_cap ctx = 7"
    by (simp add: ctx_def)
  show ?thesis
    unfolding run
    using serial_setup_complete_idempotent [OF complete, of failing_platform Io_ops_ctx
        debug_hardware_config None "Simple_caller 5" Vka_NULL
        "[Serial_setup_bootinfo_failsafe, Serial_setup_io_ops Io_ops_ctx,
           Serial_setup_simple None (Simple_caller 5) Vka_NULL]"]
    by (simp add: complete cap)
qed


section \<open>The list of physical memory regions\<close>

lemma two_less_word_size:
  assumes "2 \<le> LENGTH('a::len)"
  shows "(2::nat) < 2 ^ LENGTH('a)"
proof -
  have "(2::nat) ^ 2 \<le> 2 ^ LENGTH('a)"
    using assms by (rule power_increasing) simp
  then show ?thesis
    by simp
qed

lemma unat_two_word:
  assumes "2 \<le> LENGTH('a::len)"
  shows "unat (2 :: 'a word) = 2"
  using two_less_word_size [OF assms] by auto

lemma ucast_two_word:
  assumes "2 \<le> LENGTH('a::len)"
  shows "(ucast (2 :: 'a word) :: 32 word) = 2"
  using unat_two_word [OF assms] by simp

lemma word_less_two:
  assumes "2 \<le> LENGTH('a::len)"
  shows "(0 :: 'a word) < 2" and "(1 :: 'a word) < 2"
proof -
  have "unat (0 :: 'a word) < unat (2 :: 'a word)" and "unat (1 :: 'a word) < unat (2 :: 'a word)"
    by (simp_all only: unat_two_word [OF assms] unat_1 unsigned_0)
  then show "(0 :: 'a word) < 2" and "(1 :: 'a word) < 2"
    by (simp_all only: word_less_nat_alt)
qed

text \<open>The loop unrolled for the three bounds the clamp \<open>if (k > 2) k = 2\<close> leaves.\<close>

lemma pmem_loop_0:
  "pmem_loop (0 :: 'a::len word) 0 s = (0, s)"
  by (subst pmem_loop.simps) simp

lemma pmem_loop_1:
  "pmem_loop (0 :: 'a::len word) 1 s = (1, pmem_loop_body 0 s)"
  by (subst pmem_loop.simps, subst pmem_loop.simps) simp

lemma pmem_loop_2:
  assumes "2 \<le> LENGTH('a::len)"
  shows "pmem_loop (0 :: 'a word) 2 s = (2, pmem_loop_body 1 (pmem_loop_body 0 s))"
  using word_less_two [OF assms]
  by (subst pmem_loop.simps, subst pmem_loop.simps, subst pmem_loop.simps) simp

lemma clamp_cases:
  fixes k :: "'a::len word"
  assumes "2 \<le> LENGTH('a)"
  shows "(if k > 2 then 2 else k) = (if unat k = 0 then 0 else if unat k = 1 then 1 else 2)"
proof -
  have two: "unat (2 :: 'a word) = 2"
    using assms by (rule unat_two_word)
  have k0: "unat k = 0 \<Longrightarrow> k = 0"
    by (metis unat_eq_zero)
  have k1: "unat k = 1 \<Longrightarrow> k = 1"
    by (metis word_eq_iff_unsigned unat_1)
  have k2: "unat k = 2 \<Longrightarrow> k = 2"
    using two by (metis word_eq_iff_unsigned)
  have less: "k > 2 \<longleftrightarrow> 2 < unat k"
    by (simp only: word_less_nat_alt two)
  show ?thesis
  proof (cases "2 < unat k")
    case True
    then show ?thesis
      by (simp only: less) simp
  next
    case False
    then have "unat k = 0 \<or> unat k = 1 \<or> unat k = 2"
      by linarith
    then show ?thesis
      using False k0 k1 k2 by (simp only: less) auto
  qed
qed

lemma upt_0_2: "[0..<2] = [0, Suc 0]"
  by (simp add: numeral_2_eq_2)

text \<open>Writing all three fields of a cell leaves nothing of its old value.\<close>

lemma pmem_region_overwrite:
  fixes r :: "'w::len pmem_region"
  shows "r\<lparr>region_type := t, base_addr := b, region_length := l\<rparr> =
    \<lparr>region_type = t, base_addr = b, region_length = l\<rparr>"
  by (cases r) simp

lemma pmem_loop_body_0:
  "pmem_loop_body (0 :: 'a::len word) s =
     s\<lparr>stdout_log := stdout_log s @ [0],
       region_list := (region_list s)(0 :=
         \<lparr>region_type = PMEM_TYPE_DEVICE, base_addr = 0x40000000, region_length = 1024 * 1024\<rparr>)\<rparr>"
  by (simp add: pmem_loop_body_def pmem_region_overwrite)

lemma pmem_loop_body_1:
  "pmem_loop_body (1 :: 'a::len word) s =
     s\<lparr>stdout_log := stdout_log s @ [1],
       region_list := (region_list s)(Suc 0 :=
         \<lparr>region_type = PMEM_TYPE_DEVICE, base_addr = 0x40400000, region_length = 4 * 1024 * 1024\<rparr>)\<rparr>"
  by (simp add: pmem_loop_body_def pmem_region_overwrite)

lemma get_pmem_region_list_cases:
  fixes max_length :: "'a::len word" and s :: "('a, 'w::len) pmem_state"
  assumes "2 \<le> LENGTH('a)"
  shows "sel4platsupport_get_pmem_region_list simple max_length s =
    (if unat max_length = 0 then (0, s)
     else if unat max_length = 1 then (1, pmem_loop_body 0 s)
     else (2, pmem_loop_body 1 (pmem_loop_body 0 s)))"
  using assms
  by (simp add: sel4platsupport_get_pmem_region_list_def clamp_cases [OF assms]
      pmem_loop_0 pmem_loop_1 pmem_loop_2 [OF assms] ucast_two_word [OF assms])

text \<open>
  Claim C9. \<open>sel4platsupport_get_num_pmem_regions\<close> returns 2. With
  \<open>n = min(max_length, 2)\<close>, \<open>sel4platsupport_get_pmem_region_list\<close> returns \<open>n\<close> and
  writes the first \<open>n\<close> cells of \<open>region_list\<close> and no other: cell 0 becomes a
  \<open>PMEM_TYPE_DEVICE\<close> region at \<open>0x40000000\<close> of length 1 MiB, cell 1 a
  \<open>PMEM_TYPE_DEVICE\<close> region at \<open>0x40400000\<close> of length 4 MiB, and every cell from \<open>n\<close>
  on keeps its value; it prints one line per cell written. For \<open>max_length = 0\<close> this
  is: nothing written, 0 returned. \<open>size_t\<close> has at least two bits.
\<close>

theorem pmem_region_list_min:
  fixes max_length :: "'a::len word" and s :: "('a, 'w::len) pmem_state"
  assumes "2 \<le> LENGTH('a)"
  shows "sint (sel4platsupport_get_num_pmem_regions simple) = 2 \<and>
    (let n = min (unat max_length) 2;
         (ret, s') = sel4platsupport_get_pmem_region_list simple max_length s
     in sint ret = int n \<and>
        (0 < n \<longrightarrow> region_list s' 0 =
           \<lparr>region_type = PMEM_TYPE_DEVICE, base_addr = 0x40000000, region_length = 0x100000\<rparr>) \<and>
        (1 < n \<longrightarrow> region_list s' 1 =
           \<lparr>region_type = PMEM_TYPE_DEVICE, base_addr = 0x40400000, region_length = 0x400000\<rparr>) \<and>
        (\<forall>j. n \<le> j \<longrightarrow> region_list s' j = region_list s j) \<and>
        stdout_log s' = stdout_log s @ map of_nat [0..<n])"
proof -
  have num: "sint (sel4platsupport_get_num_pmem_regions simple) = 2"
    by (simp add: sel4platsupport_get_num_pmem_regions_def)
  consider (zero) "unat max_length = 0" | (one) "unat max_length = 1" | (more) "2 \<le> unat max_length"
    by linarith
  then show ?thesis
  proof cases
    case zero
    then show ?thesis
      using num by (simp add: get_pmem_region_list_cases [OF assms])
  next
    case one
    then show ?thesis
      using num by (simp add: get_pmem_region_list_cases [OF assms] pmem_loop_body_0)
  next
    case more
    then have n: "min (unat max_length) 2 = 2"
      by simp
    from more have res: "sel4platsupport_get_pmem_region_list simple max_length s =
        (2, pmem_loop_body 1 (pmem_loop_body 0 s))"
      by (simp add: get_pmem_region_list_cases [OF assms])
    show ?thesis
      unfolding Let_def n res
      using num by (simp add: pmem_loop_body_0 pmem_loop_body_1 upt_0_2)
  qed
qed

text \<open>
  An array of RAM regions of length 0 and a 32-bit \<open>size_t\<close>. Room for five regions: 2
  is returned, cells 0 and 1 hold the two device regions, cell 2 is untouched and two lines
  are printed. Room for none: 0 is returned and no cell is written.
\<close>

theorem pmem_region_list_min_witness:
  "2 \<le> LENGTH(32) \<and>
   sint (sel4platsupport_get_num_pmem_regions ()) = 2 \<and>
   (let s = \<lparr>region_list =
               (\<lambda>_. \<lparr>region_type = PMEM_TYPE_RAM, base_addr = 0 :: 64 word, region_length = 0\<rparr>),
             stdout_log = [] :: 32 word list\<rparr>;
        (ret, s') = sel4platsupport_get_pmem_region_list () (5 :: 32 word) s;
        (ret0, s0) = sel4platsupport_get_pmem_region_list () (0 :: 32 word) s
    in sint ret = 2 \<and>
       region_list s' 0 =
         \<lparr>region_type = PMEM_TYPE_DEVICE, base_addr = 0x40000000, region_length = 0x100000\<rparr> \<and>
       region_list s' 1 =
         \<lparr>region_type = PMEM_TYPE_DEVICE, base_addr = 0x40400000, region_length = 0x400000\<rparr> \<and>
       region_list s' 2 = region_list s 2 \<and>
       stdout_log s' = [0, 1] \<and>
       sint ret0 = 0 \<and> region_list s0 0 = region_list s 0 \<and> region_list s0 1 = region_list s 1 \<and>
       stdout_log s0 = [])"
  using pmem_region_list_min [where 'a = 32 and 'w = 64 and max_length = 5 and simple = "()"
      and s = "\<lparr>region_list =
                 (\<lambda>_. \<lparr>region_type = PMEM_TYPE_RAM, base_addr = 0, region_length = 0\<rparr>),
               stdout_log = []\<rparr>"]
    pmem_region_list_min [where 'a = 32 and 'w = 64 and max_length = 0 and simple = "()"
      and s = "\<lparr>region_list =
                 (\<lambda>_. \<lparr>region_type = PMEM_TYPE_RAM, base_addr = 0, region_length = 0\<rparr>),
               stdout_log = []\<rparr>"]
  by (simp add: Let_def upt_0_2 split: prod.splits)


section \<open>Foreign and own messages in the wait\<close>

text \<open>
  Claim C5. When \<open>irq_server_wait_for_irq\<close> receives a message whose label is not the
  server's, no dispatch takes place and nothing is changed: the state every handler works
  on is as before, and the caller gets the message info as received and, through
  \<open>badge_ret\<close>, the badge as received. When the label is the server's,
  \<open>irq_server_handle_irq_ipc\<close> has run, once and on this message, by the time the call
  returns.
\<close>

theorem wait_for_irq_label:
  "(mi_label (ipc_info m) \<noteq> srv_label irq_server \<longrightarrow>
      map_option ret_world (irq_server_wait_for_irq handle irq_server badge_ret (m # rest) world)
        = Some world) \<and>
   (mi_label (ipc_info m) = srv_label irq_server \<longrightarrow>
      map_option ret_world (irq_server_wait_for_irq handle irq_server badge_ret (m # rest) world)
        = Some (handle irq_server m world)) \<and>
   map_option ret_info (irq_server_wait_for_irq handle irq_server badge_ret (m # rest) world)
     = Some (ipc_info m) \<and>
   map_option ret_badge (irq_server_wait_for_irq handle irq_server badge_ret (m # rest) world)
     = Some (if badge_ret then Some (ipc_badge m) else None)"
  by (simp add: irq_server_wait_for_irq_def)

theorem wait_for_irq_label_witness:
  "mi_label (ipc_info foreign_message) \<noteq> srv_label example_server \<and>
   mi_label (ipc_info irq_message) = srv_label example_server \<and>
   map_option ret_world
     (irq_server_wait_for_irq record_dispatch example_server True [foreign_message] []) = Some [] \<and>
   map_option ret_info
     (irq_server_wait_for_irq record_dispatch example_server True [foreign_message] [])
     = Some (ipc_info foreign_message) \<and>
   map_option ret_badge
     (irq_server_wait_for_irq record_dispatch example_server True [foreign_message] [])
     = Some (Some 0x2a) \<and>
   map_option ret_world
     (irq_server_wait_for_irq record_dispatch example_server True [irq_message] []) = Some [5]"
proof -
  have foreign: "mi_label (ipc_info foreign_message) \<noteq> srv_label example_server"
    by (simp add: foreign_message_def example_server_def)
  have own: "mi_label (ipc_info irq_message) = srv_label example_server"
    by (simp add: irq_message_def example_server_def)
  have badge: "ipc_badge foreign_message = 0x2a"
    by (simp add: foreign_message_def)
  have dispatched: "record_dispatch example_server irq_message [] = [5]"
    by (simp add: record_dispatch_def irq_message_def)
  show ?thesis
    using foreign own
      wait_for_irq_label [of foreign_message example_server record_dispatch True "[]" "[]"]
      wait_for_irq_label [of irq_message example_server record_dispatch True "[]" "[]"]
    by (simp add: badge dispatched)
qed

end
